theory Spec2Isabelle
  imports Main
begin

section \<open>Data model\<close>

text \<open>
  The payloads of the remote API are untyped dictionaries in the source. The model gives
  them the shape the code reads. A track's album may be JSON null (\<open>None\<close>), its
  list of artists and its album's list of images may be empty: these are the places where
  the source indexes without a check.
\<close>

datatype py_error = KeyError | TypeError | IndexError | ValueError | OverflowError

record album =
  alb_name :: string
  alb_images :: "string list" \<comment> \<open>the \<open>url\<close> of each entry of \<open>images\<close>\<close>

record track =
  t_id :: string
  t_name :: string
  t_artists :: "string list" \<comment> \<open>the \<open>name\<close> of each entry of \<open>artists\<close>\<close>
  t_album :: "album option"

record liked_item =
  li_track :: track
  li_added_at :: string

text \<open>
  The three feeds return three kinds of element under the key \<open>items\<close>: saved-track
  objects (keys \<open>added_at\<close> and \<open>track\<close>), play-history objects (key \<open>track\<close>) and
  plain track objects (key \<open>id\<close>).
\<close>

datatype element = SavedTrack liked_item | PlayHistory track | TrackObject track

text \<open>
  A decoded JSON object, with the keys the code reads. \<open>p_other\<close> says that the object
  holds further keys; an object with no key at all is falsy in Python.
\<close>

record payload =
  p_items :: "element list option"
  p_success :: "bool option"
  p_access_token :: "string option"
  p_other :: bool

definition truthy :: "payload \<Rightarrow> bool" where
  "truthy p \<longleftrightarrow> p_items p \<noteq> None \<or> p_success p \<noteq> None \<or> p_access_token p \<noteq> None \<or> p_other p"

definition success_payload :: payload where
  "success_payload = \<lparr>p_items = None, p_success = Some True, p_access_token = None, p_other = False\<rparr>"

section \<open>The HTTP transport\<close>

datatype http_method = GET | DELETE | PUT | POST

datatype param = PInt int | PStr string

text \<open>The argument \<open>data\<close> of a request: a dictionary from keys to lists of strings.\<close>

type_synonym data = "(string \<times> string list) list"

record http_request =
  rq_method :: http_method
  rq_url :: string
  rq_authorization :: string
  rq_params :: "(string \<times> param) list option"
  rq_json :: "data option"
  rq_form :: "(string \<times> string) list option"

datatype retry_after_header = NoHeader | HeaderInt int | HeaderText

text \<open>
  The text of a response: blank (\<open>text.strip()\<close> is empty), a JSON object, or any other
  text, on which \<open>response.json()\<close> raises ValueError.
\<close>

datatype body = BlankText | JsonText payload | OtherText

record http_response =
  status_code :: nat
  retry_after :: retry_after_header
  text_body :: body

datatype http_outcome = RequestException | Response http_response

text \<open>
  The remote side is any function from the exchanges so far and the request sent to an
  outcome. The world records every exchange in order, and the time slept in milliseconds.
\<close>

type_synonym exchange = "http_request \<times> http_outcome"

type_synonym server = "exchange list \<Rightarrow> http_request \<Rightarrow> http_outcome"

record world =
  exchanges :: "exchange list"
  slept_ms :: nat

definition send :: "server \<Rightarrow> http_request \<Rightarrow> world \<Rightarrow> http_outcome \<times> world" where
  "send srv rq w =
     (let out = srv (exchanges w) rq
      in (out, w\<lparr>exchanges := exchanges w @ [(rq, out)]\<rparr>))"

text \<open>\<open>time.sleep(seconds)\<close>: a negative argument raises ValueError.\<close>

definition sleep :: "int \<Rightarrow> world \<Rightarrow> py_error + world" where
  "sleep seconds w =
     (if seconds < 0 then Inl ValueError
      else Inr (w\<lparr>slept_ms := slept_ms w + nat seconds * 1000\<rparr>))"

definition sleep_ms :: "nat \<Rightarrow> world \<Rightarrow> world" where
  "sleep_ms ms w = w\<lparr>slept_ms := slept_ms w + ms\<rparr>"

text \<open>\<open>int(response.headers.get('Retry-After', 1))\<close>\<close>

definition retry_after_seconds :: "http_response \<Rightarrow> py_error + int" where
  "retry_after_seconds r =
     (case retry_after r of
        NoHeader \<Rightarrow> Inr 1
      | HeaderInt n \<Rightarrow> Inr n
      | HeaderText \<Rightarrow> Inl ValueError)"

definition base_url :: string where
  "base_url = ''https://api.spotify.com/v1''"

definition bearer :: "string \<Rightarrow> string" where
  "bearer token = ''Bearer '' @ token"

fun join_comma :: "string list \<Rightarrow> string" where
  "join_comma [] = []"
| "join_comma [x] = x"
| "join_comma (x # y # ys) = x @ '','' @ join_comma (y # ys)"

record call =
  c_endpoint :: string
  c_method :: http_method
  c_data :: "data option"
  c_params :: "(string \<times> param) list option"

text \<open>
  The request that one attempt sends. A DELETE to \<open>/me/tracks\<close> whose data holds \<open>ids\<close>
  carries the identifiers comma-joined in the query string; every other mutating request
  carries the data as its JSON body. A GET of the web service passes \<open>params\<close>.
\<close>

definition build_request :: "string \<Rightarrow> call \<Rightarrow> http_request" where
  "build_request auth c =
     (let rq = \<lparr>rq_method = c_method c, rq_url = base_url @ c_endpoint c,
                rq_authorization = auth, rq_params = None, rq_json = None, rq_form = None\<rparr>
      in case c_method c of
           GET \<Rightarrow> rq\<lparr>rq_params := c_params c\<rparr>
         | DELETE \<Rightarrow>
             (case c_data c of
                Some d \<Rightarrow>
                  (if c_endpoint c = ''/me/tracks'' \<and> d \<noteq> [] \<and> map_of d ''ids'' \<noteq> None
                   then rq\<lparr>rq_params := Some [(''ids'', PStr (join_comma (the (map_of d ''ids''))))]\<rparr>
                   else rq\<lparr>rq_json := c_data c\<rparr>)
              | None \<Rightarrow> rq\<lparr>rq_json := c_data c\<rparr>)
         | PUT \<Rightarrow> rq\<lparr>rq_json := c_data c\<rparr>
         | POST \<Rightarrow> rq\<lparr>rq_json := c_data c\<rparr>)"

section \<open>The web service, \<open>spotify_service.py\<close>\<close>

record service =
  access_token :: string
  refresh_token :: "string option"

text \<open>What \<open>make_request\<close> does with a response of status 200, in both programs.\<close>

definition on_status_200 :: "http_method \<Rightarrow> http_response \<Rightarrow> payload option" where
  "on_status_200 m r =
     (case text_body r of
        BlankText \<Rightarrow> (if m = DELETE then Some success_payload else None)
      | JsonText p \<Rightarrow> Some p
      | OtherText \<Rightarrow> (if m = DELETE then Some success_payload else None))"

text \<open>
  \<open>SpotifyService.make_request\<close>: the loop \<open>for attempt in range(3)\<close>, as a recursion
  over the attempts left to run. Only \<open>requests.RequestException\<close> is caught; a
  ValueError from the Retry-After header or from \<open>time.sleep\<close> leaves the function.
\<close>

fun make_request_attempts ::
  "server \<Rightarrow> service \<Rightarrow> call \<Rightarrow> nat list \<Rightarrow> world \<Rightarrow> (py_error + payload option) \<times> world" where
  "make_request_attempts srv s c [] w = (Inr None, w)"
| "make_request_attempts srv s c (attempt # rest) w =
     (case send srv (build_request (bearer (access_token s)) c) w of
        (RequestException, w1) \<Rightarrow>
          (if attempt = 2 then (Inr None, w1)
           else make_request_attempts srv s c rest (sleep_ms 1000 w1))
      | (Response r, w1) \<Rightarrow>
          (if status_code r = 429 then
             (case retry_after_seconds r of
                Inl e \<Rightarrow> (Inl e, w1)
              | Inr n \<Rightarrow>
                  (case sleep n w1 of
                     Inl e \<Rightarrow> (Inl e, w1)
                   | Inr w2 \<Rightarrow> make_request_attempts srv s c rest w2))
           else if status_code r = 200 then (Inr (on_status_200 (c_method c) r), w1)
           else if status_code r = 401 then (Inr None, w1)
           else (Inr None, w1)))"

definition make_request :: "server \<Rightarrow> service \<Rightarrow> call \<Rightarrow> world \<Rightarrow> (py_error + payload option) \<times> world" where
  "make_request srv s c w = make_request_attempts srv s c [0, 1, 2] w"

text \<open>
  \<open>get_liked_songs\<close>: the loop \<open>while True\<close> ends only when the server sends a
  falsy answer, no items or a short page, so the model is a partial function: \<open>None\<close>
  is a run that never returns. A failed request (\<open>None\<close> from \<open>make_request\<close>) leaves
  the loop like an empty page does.
\<close>

definition page_call :: "nat \<Rightarrow> nat \<Rightarrow> call" where
  "page_call limit offset =
     \<lparr>c_endpoint = ''/me/tracks'', c_method = GET, c_data = None,
      c_params = Some [(''limit'', PInt (int limit)), (''offset'', PInt (int offset))]\<rparr>"

partial_function (option) get_liked_songs_loop ::
  "server \<Rightarrow> service \<Rightarrow> nat \<Rightarrow> nat \<Rightarrow> element list \<Rightarrow> world \<Rightarrow> ((py_error + element list) \<times> world) option" where
  "get_liked_songs_loop srv s limit offset songs w =
     (case make_request srv s (page_call limit offset) w of
        (Inl e, w1) \<Rightarrow> Some (Inl e, w1)
      | (Inr None, w1) \<Rightarrow> Some (Inr songs, w1)
      | (Inr (Some response), w1) \<Rightarrow>
          (if \<not> truthy response then Some (Inr songs, w1)
           else case p_items response of
                  None \<Rightarrow> Some (Inr songs, w1)
                | Some [] \<Rightarrow> Some (Inr songs, w1)
                | Some (x # xs) \<Rightarrow>
                    (if length (x # xs) < limit then Some (Inr (songs @ x # xs), w1)
                     else get_liked_songs_loop srv s limit (offset + limit) (songs @ x # xs) w1)))"

declare get_liked_songs_loop.simps [code]

definition get_liked_songs ::
  "server \<Rightarrow> service \<Rightarrow> nat \<Rightarrow> world \<Rightarrow> ((py_error + element list) \<times> world) option" where
  "get_liked_songs srv s limit w = get_liked_songs_loop srv s limit 0 [] w"

text \<open>\<open>response.get('items', []) if response else []\<close>\<close>

definition items_or_empty :: "payload option \<Rightarrow> element list" where
  "items_or_empty response =
     (case response of
        None \<Rightarrow> []
      | Some p \<Rightarrow> (if truthy p then (case p_items p of None \<Rightarrow> [] | Some xs \<Rightarrow> xs) else []))"

definition get_recently_played ::
  "server \<Rightarrow> service \<Rightarrow> nat \<Rightarrow> world \<Rightarrow> (py_error + element list) \<times> world" where
  "get_recently_played srv s limit w =
     (case make_request srv s
             \<lparr>c_endpoint = ''/me/player/recently-played'', c_method = GET, c_data = None,
              c_params = Some [(''limit'', PInt (int limit))]\<rparr> w of
        (Inl e, w1) \<Rightarrow> (Inl e, w1)
      | (Inr response, w1) \<Rightarrow> (Inr (items_or_empty response), w1))"

definition get_top_tracks ::
  "server \<Rightarrow> service \<Rightarrow> string \<Rightarrow> nat \<Rightarrow> world \<Rightarrow> (py_error + element list) \<times> world" where
  "get_top_tracks srv s time_range limit w =
     (case make_request srv s
             \<lparr>c_endpoint = ''/me/top/tracks'', c_method = GET, c_data = None,
              c_params = Some [(''time_range'', PStr time_range), (''limit'', PInt (int limit))]\<rparr> w of
        (Inl e, w1) \<Rightarrow> (Inl e, w1)
      | (Inr response, w1) \<Rightarrow> (Inr (items_or_empty response), w1))"

text \<open>
  \<open>remove_tracks_from_liked\<close>: the loop \<open>for i in range(0, len(track_ids), batch_size)\<close>
  with the slice \<open>track_ids[i:i + batch_size]\<close>. The result is a boolean only.
\<close>

definition batch_size :: nat where
  "batch_size = 50"

definition delete_call :: "string list \<Rightarrow> call" where
  "delete_call batch =
     \<lparr>c_endpoint = ''/me/tracks'', c_method = DELETE, c_data = Some [(''ids'', batch)],
      c_params = None\<rparr>"

text \<open>\<open>not response or not response.get('success')\<close>\<close>

definition removal_failed :: "payload option \<Rightarrow> bool" where
  "removal_failed response =
     (case response of
        None \<Rightarrow> True
      | Some p \<Rightarrow> \<not> truthy p \<or> p_success p \<noteq> Some True)"

function remove_tracks_from ::
  "server \<Rightarrow> service \<Rightarrow> string list \<Rightarrow> nat \<Rightarrow> world \<Rightarrow> (py_error + bool) \<times> world" where
  "remove_tracks_from srv s track_ids i w =
     (if length track_ids \<le> i then (Inr True, w)
      else
        (case make_request srv s (delete_call (take batch_size (drop i track_ids))) w of
           (Inl e, w1) \<Rightarrow> (Inl e, w1)
         | (Inr response, w1) \<Rightarrow>
             (if removal_failed response then (Inr False, w1)
              else remove_tracks_from srv s track_ids (i + batch_size) w1)))"
  by pat_completeness auto
termination
  by (relation "measure (\<lambda>(srv, s, track_ids, i, w). length track_ids - i)")
     (auto simp: batch_size_def)

definition remove_tracks_from_liked ::
  "server \<Rightarrow> service \<Rightarrow> string list \<Rightarrow> world \<Rightarrow> (py_error + bool) \<times> world" where
  "remove_tracks_from_liked srv s track_ids w = remove_tracks_from srv s track_ids 0 w"

subsection \<open>Analysis\<close>

text \<open>Subscripts on the elements of a feed; a missing key raises KeyError.\<close>

definition item_track :: "element \<Rightarrow> py_error + track" where
  "item_track item =
     (case item of
        SavedTrack li \<Rightarrow> Inr (li_track li)
      | PlayHistory t \<Rightarrow> Inr t
      | TrackObject t \<Rightarrow> Inl KeyError)"

definition item_added_at :: "element \<Rightarrow> py_error + string" where
  "item_added_at item =
     (case item of
        SavedTrack li \<Rightarrow> Inr (li_added_at li)
      | PlayHistory t \<Rightarrow> Inl KeyError
      | TrackObject t \<Rightarrow> Inl KeyError)"

definition track_id :: "element \<Rightarrow> py_error + string" where
  "track_id tr =
     (case tr of
        TrackObject t \<Rightarrow> Inr (t_id t)
      | SavedTrack li \<Rightarrow> Inl KeyError
      | PlayHistory t \<Rightarrow> Inl KeyError)"

text \<open>\<open>for item in recently_played: active_track_ids.add(item['track']['id'])\<close>\<close>

fun add_recently_played :: "element list \<Rightarrow> string set \<Rightarrow> py_error + string set" where
  "add_recently_played [] active = Inr active"
| "add_recently_played (item # rest) active =
     (case item_track item of
        Inl e \<Rightarrow> Inl e
      | Inr t \<Rightarrow> add_recently_played rest (insert (t_id t) active))"

text \<open>\<open>for track in short_term_top + medium_term_top: active_track_ids.add(track['id'])\<close>\<close>

fun add_top_tracks :: "element list \<Rightarrow> string set \<Rightarrow> py_error + string set" where
  "add_top_tracks [] active = Inr active"
| "add_top_tracks (tr # rest) active =
     (case track_id tr of
        Inl e \<Rightarrow> Inl e
      | Inr i \<Rightarrow> add_top_tracks rest (insert i active))"

definition active_track_ids ::
  "element list \<Rightarrow> element list \<Rightarrow> element list \<Rightarrow> py_error + string set" where
  "active_track_ids recently_played short_term_top medium_term_top =
     (case add_recently_played recently_played {} of
        Inl e \<Rightarrow> Inl e
      | Inr active \<Rightarrow> add_top_tracks (short_term_top @ medium_term_top) active)"

text \<open>
  Instants are naive datetimes, counted in microseconds from \<open>datetime.min\<close>; the last
  one is \<open>datetime.max\<close>. \<open>timedelta(days=d)\<close> raises OverflowError beyond 999999999
  days, and so does a subtraction that leaves the range of datetimes.
\<close>

definition microseconds_per_day :: int where
  "microseconds_per_day = 86400000000"

definition max_instant :: int where
  "max_instant = 3652059 * microseconds_per_day - 1"

definition cutoff_date :: "int \<Rightarrow> int \<Rightarrow> py_error + int" where
  "cutoff_date now timeframe_months =
     (let days = timeframe_months * 30
      in if \<bar>days\<bar> > 999999999 then Inl OverflowError
         else let cutoff = now - days * microseconds_per_day
              in if cutoff < 0 \<or> max_instant < cutoff then Inl OverflowError else Inr cutoff)"

text \<open>\<open>str.replace('Z', '+00:00')\<close>\<close>

definition replace_Z :: "string \<Rightarrow> string" where
  "replace_Z str = concat (map (\<lambda>ch. if ch = CHR ''Z'' then ''+00:00'' else [ch]) str)"

text \<open>
  \<open>datetime.fromisoformat(added_at_str).replace(tzinfo=None)\<close> belongs to the Python
  library: the parameter \<open>fromisoformat\<close> stands for it, with \<open>None\<close> where it raises
  ValueError.
\<close>

definition parse_added_at :: "(string \<Rightarrow> int option) \<Rightarrow> string \<Rightarrow> py_error + int" where
  "parse_added_at fromisoformat added_at =
     (case fromisoformat (replace_Z added_at) of
        None \<Rightarrow> Inl ValueError
      | Some t \<Rightarrow> Inr t)"

text \<open>\<open>track['artists'][0]['name']\<close> and \<open>track['album']\<close> followed by a subscript.\<close>

definition first_artist :: "track \<Rightarrow> py_error + string" where
  "first_artist t = (case t_artists t of [] \<Rightarrow> Inl IndexError | a # _ \<Rightarrow> Inr a)"

definition album_of :: "track \<Rightarrow> py_error + album" where
  "album_of t = (case t_album t of None \<Rightarrow> Inl TypeError | Some a \<Rightarrow> Inr a)"

record removed_track =
  rt_id :: string
  rt_name :: string
  rt_artist :: string
  rt_album :: string
  rt_added_at :: int

definition removal_record :: "track \<Rightarrow> int \<Rightarrow> py_error + removed_track" where
  "removal_record t added_at =
     (case first_artist t of
        Inl e \<Rightarrow> Inl e
      | Inr artist \<Rightarrow>
          (case album_of t of
             Inl e \<Rightarrow> Inl e
           | Inr a \<Rightarrow>
               Inr \<lparr>rt_id = t_id t, rt_name = t_name t, rt_artist = artist,
                    rt_album = alb_name a, rt_added_at = added_at\<rparr>))"

text \<open>
  The body of the loop over the liked songs in \<open>analyze_and_cleanup\<close>: \<open>Inr None\<close>
  when the entry is passed over, \<open>Inr (Some r)\<close> when \<open>r\<close> is appended to
  \<open>tracks_to_remove\<close>. The timestamp is parsed before the active set is consulted.
\<close>

definition analyze_item ::
  "(string \<Rightarrow> int option) \<Rightarrow> string set \<Rightarrow> int \<Rightarrow> element \<Rightarrow> py_error + removed_track option" where
  "analyze_item fromisoformat active cutoff item =
     (case item_track item of
        Inl e \<Rightarrow> Inl e
      | Inr t \<Rightarrow>
          (case item_added_at item of
             Inl e \<Rightarrow> Inl e
           | Inr added_at_str \<Rightarrow>
               (case parse_added_at fromisoformat added_at_str of
                  Inl e \<Rightarrow> Inl e
                | Inr added_at \<Rightarrow>
                    (if t_id t \<in> active then Inr None
                     else if added_at < cutoff then
                       (case removal_record t added_at of
                          Inl e \<Rightarrow> Inl e
                        | Inr r \<Rightarrow> Inr (Some r))
                     else Inr None))))"

fun analyze_items ::
  "(string \<Rightarrow> int option) \<Rightarrow> string set \<Rightarrow> int \<Rightarrow> element list \<Rightarrow> removed_track list
     \<Rightarrow> py_error + removed_track list" where
  "analyze_items fromisoformat active cutoff [] tracks_to_remove = Inr tracks_to_remove"
| "analyze_items fromisoformat active cutoff (item # rest) tracks_to_remove =
     (case analyze_item fromisoformat active cutoff item of
        Inl e \<Rightarrow> Inl e
      | Inr None \<Rightarrow> analyze_items fromisoformat active cutoff rest tracks_to_remove
      | Inr (Some r) \<Rightarrow> analyze_items fromisoformat active cutoff rest (tracks_to_remove @ [r]))"

record cleanup_result =
  total_liked_songs :: int
  songs_analyzed :: int
  songs_removed :: int
  songs_kept :: int
  recent_tracks_found :: "int option"
  top_tracks_found :: "int option"
  removed_tracks :: "removed_track list"

text \<open>
  The three feeds of recent activity, fetched one after the other. An error here is an
  exception that leaves \<open>make_request\<close>.
\<close>

definition get_recent_activity ::
  "server \<Rightarrow> service \<Rightarrow> world \<Rightarrow> (py_error + element list \<times> element list \<times> element list) \<times> world" where
  "get_recent_activity srv s w =
     (case get_recently_played srv s 50 w of
        (Inl e, w1) \<Rightarrow> (Inl e, w1)
      | (Inr recently_played, w1) \<Rightarrow>
          (case get_top_tracks srv s ''short_term'' 50 w1 of
             (Inl e, w2) \<Rightarrow> (Inl e, w2)
           | (Inr short_term_top, w2) \<Rightarrow>
               (case get_top_tracks srv s ''medium_term'' 50 w2 of
                  (Inl e, w3) \<Rightarrow> (Inl e, w3)
                | (Inr medium_term_top, w3) \<Rightarrow>
                    (Inr (recently_played, short_term_top, medium_term_top), w3))))"

text \<open>
  The part of \<open>analyze_and_cleanup\<close> that runs without the network: the active set, the
  cutoff and the classification.
\<close>

definition tracks_to_remove_of ::
  "(string \<Rightarrow> int option) \<Rightarrow> int \<Rightarrow> int \<Rightarrow> element list \<Rightarrow> element list \<Rightarrow> element list
     \<Rightarrow> element list \<Rightarrow> py_error + removed_track list" where
  "tracks_to_remove_of fromisoformat now timeframe_months liked_songs recently_played
       short_term_top medium_term_top =
     (case active_track_ids recently_played short_term_top medium_term_top of
        Inl e \<Rightarrow> Inl e
      | Inr active \<Rightarrow>
          (case cutoff_date now timeframe_months of
             Inl e \<Rightarrow> Inl e
           | Inr cutoff \<Rightarrow> analyze_items fromisoformat active cutoff liked_songs []))"

text \<open>The removal step and the summary of \<open>analyze_and_cleanup\<close>.\<close>

definition remove_and_report ::
  "server \<Rightarrow> service \<Rightarrow> element list \<Rightarrow> element list \<Rightarrow> element list \<Rightarrow> element list
     \<Rightarrow> removed_track list \<Rightarrow> world \<Rightarrow> (py_error + cleanup_result) \<times> world" where
  "remove_and_report srv s liked_songs recently_played short_term_top medium_term_top
       tracks_to_remove w =
     (let total_liked = int (length liked_songs);
          report = (\<lambda>removed_count.
            \<lparr>total_liked_songs = total_liked,
             songs_analyzed = int (length liked_songs),
             songs_removed = removed_count,
             songs_kept = total_liked - removed_count,
             recent_tracks_found = Some (int (length recently_played)),
             top_tracks_found = Some (int (length short_term_top) + int (length medium_term_top)),
             removed_tracks = take (nat removed_count) tracks_to_remove\<rparr>)
      in if tracks_to_remove = [] then (Inr (report 0), w)
         else
           (case remove_tracks_from_liked srv s (map rt_id tracks_to_remove) w of
              (Inl e, w1) \<Rightarrow> (Inl e, w1)
            | (Inr True, w1) \<Rightarrow> (Inr (report (int (length tracks_to_remove))), w1)
            | (Inr False, w1) \<Rightarrow> (Inr (report 0), w1)))"

definition empty_result :: cleanup_result where
  "empty_result =
     \<lparr>total_liked_songs = 0, songs_analyzed = 0, songs_removed = 0, songs_kept = 0,
      recent_tracks_found = None, top_tracks_found = None, removed_tracks = []\<rparr>"

definition analyze_and_cleanup ::
  "server \<Rightarrow> (string \<Rightarrow> int option) \<Rightarrow> int \<Rightarrow> service \<Rightarrow> int \<Rightarrow> world
     \<Rightarrow> ((py_error + cleanup_result) \<times> world) option" where
  "analyze_and_cleanup srv fromisoformat now s timeframe_months w =
     (case get_liked_songs srv s 50 w of
        None \<Rightarrow> None
      | Some (Inl e, w1) \<Rightarrow> Some (Inl e, w1)
      | Some (Inr liked_songs, w1) \<Rightarrow>
          (if liked_songs = [] then Some (Inr empty_result, w1)
           else
             (case get_recent_activity srv s w1 of
                (Inl e, w2) \<Rightarrow> Some (Inl e, w2)
              | (Inr (recently_played, short_term_top, medium_term_top), w2) \<Rightarrow>
                  (case tracks_to_remove_of fromisoformat now timeframe_months liked_songs
                          recently_played short_term_top medium_term_top of
                     Inl e \<Rightarrow> Some (Inl e, w2)
                   | Inr tracks_to_remove \<Rightarrow>
                       Some (remove_and_report srv s liked_songs recently_played short_term_top
                               medium_term_top tracks_to_remove w2)))))"

subsection \<open>Preview\<close>

text \<open>
  The entries of \<open>tracks_to_remove\<close> in a preview. \<open>pt_added_at\<close> is the instant that
  the source renders with \<open>isoformat()\<close>; \<open>pt_preview_image\<close> is \<open>None\<close> when the
  album has no image.
\<close>

record preview_track =
  pt_id :: string
  pt_name :: string
  pt_artist :: string
  pt_album :: string
  pt_added_at :: int
  pt_preview_image :: "string option"

text \<open>
  \<open>track['album']['images'][0]['url'] if track['album']['images'] else None\<close>, for an
  album that is there.
\<close>

definition preview_image_of :: "album \<Rightarrow> string option" where
  "preview_image_of a = (case alb_images a of [] \<Rightarrow> None | u # _ \<Rightarrow> Some u)"

definition preview_record :: "track \<Rightarrow> int \<Rightarrow> py_error + preview_track" where
  "preview_record t added_at =
     (case first_artist t of
        Inl e \<Rightarrow> Inl e
      | Inr artist \<Rightarrow>
          (case album_of t of
             Inl e \<Rightarrow> Inl e
           | Inr a \<Rightarrow>
               Inr \<lparr>pt_id = t_id t, pt_name = t_name t, pt_artist = artist,
                    pt_album = alb_name a, pt_added_at = added_at,
                    pt_preview_image = preview_image_of a\<rparr>))"

definition preview_item ::
  "(string \<Rightarrow> int option) \<Rightarrow> string set \<Rightarrow> int \<Rightarrow> element \<Rightarrow> py_error + preview_track option" where
  "preview_item fromisoformat active cutoff item =
     (case item_track item of
        Inl e \<Rightarrow> Inl e
      | Inr t \<Rightarrow>
          (case item_added_at item of
             Inl e \<Rightarrow> Inl e
           | Inr added_at_str \<Rightarrow>
               (case parse_added_at fromisoformat added_at_str of
                  Inl e \<Rightarrow> Inl e
                | Inr added_at \<Rightarrow>
                    (if t_id t \<in> active then Inr None
                     else if added_at < cutoff then
                       (case preview_record t added_at of
                          Inl e \<Rightarrow> Inl e
                        | Inr r \<Rightarrow> Inr (Some r))
                     else Inr None))))"

fun preview_items ::
  "(string \<Rightarrow> int option) \<Rightarrow> string set \<Rightarrow> int \<Rightarrow> element list \<Rightarrow> preview_track list
     \<Rightarrow> py_error + preview_track list" where
  "preview_items fromisoformat active cutoff [] tracks_to_remove = Inr tracks_to_remove"
| "preview_items fromisoformat active cutoff (item # rest) tracks_to_remove =
     (case preview_item fromisoformat active cutoff item of
        Inl e \<Rightarrow> Inl e
      | Inr None \<Rightarrow> preview_items fromisoformat active cutoff rest tracks_to_remove
      | Inr (Some r) \<Rightarrow> preview_items fromisoformat active cutoff rest (tracks_to_remove @ [r]))"

record preview_result =
  pv_total_liked_songs :: int
  pv_tracks_to_remove :: "preview_track list"
  pv_tracks_to_keep :: int
  pv_recent_activity_count :: "int option"

definition empty_preview :: preview_result where
  "empty_preview =
     \<lparr>pv_total_liked_songs = 0, pv_tracks_to_remove = [], pv_tracks_to_keep = 0,
      pv_recent_activity_count = None\<rparr>"

text \<open>The part of \<open>preview_cleanup\<close> that runs without the network.\<close>

definition preview_report ::
  "(string \<Rightarrow> int option) \<Rightarrow> int \<Rightarrow> int \<Rightarrow> element list \<Rightarrow> element list \<Rightarrow> element list
     \<Rightarrow> element list \<Rightarrow> py_error + preview_result" where
  "preview_report fromisoformat now timeframe_months liked_songs recently_played
       short_term_top medium_term_top =
     (case active_track_ids recently_played short_term_top medium_term_top of
        Inl e \<Rightarrow> Inl e
      | Inr active \<Rightarrow>
          (case cutoff_date now timeframe_months of
             Inl e \<Rightarrow> Inl e
           | Inr cutoff \<Rightarrow>
               (case preview_items fromisoformat active cutoff liked_songs [] of
                  Inl e \<Rightarrow> Inl e
                | Inr tracks_to_remove \<Rightarrow>
                    Inr \<lparr>pv_total_liked_songs = int (length liked_songs),
                         pv_tracks_to_remove = tracks_to_remove,
                         pv_tracks_to_keep = int (length liked_songs) - int (length tracks_to_remove),
                         pv_recent_activity_count = Some (int (card active))\<rparr>)))"

definition preview_cleanup ::
  "server \<Rightarrow> (string \<Rightarrow> int option) \<Rightarrow> int \<Rightarrow> service \<Rightarrow> int \<Rightarrow> world
     \<Rightarrow> ((py_error + preview_result) \<times> world) option" where
  "preview_cleanup srv fromisoformat now s timeframe_months w =
     (case get_liked_songs srv s 50 w of
        None \<Rightarrow> None
      | Some (Inl e, w1) \<Rightarrow> Some (Inl e, w1)
      | Some (Inr liked_songs, w1) \<Rightarrow>
          (if liked_songs = [] then Some (Inr empty_preview, w1)
           else
             (case get_recent_activity srv s w1 of
                (Inl e, w2) \<Rightarrow> Some (Inl e, w2)
              | (Inr (recently_played, short_term_top, medium_term_top), w2) \<Rightarrow>
                  Some (preview_report fromisoformat now timeframe_months liked_songs
                          recently_played short_term_top medium_term_top, w2))))"

section \<open>The command-line cleaner, \<open>spotify_cleaner.py\<close>\<close>

record cleaner =
  client_id :: string
  client_secret :: string
  cl_access_token :: string
  cl_refresh_token :: string
  cl_authorization :: string \<comment> \<open>\<open>headers["Authorization"]\<close>\<close>
  six_months_ago :: int

definition token_url :: string where
  "token_url = ''https://accounts.spotify.com/api/token''"

definition refresh_request :: "cleaner \<Rightarrow> http_request" where
  "refresh_request cl =
     \<lparr>rq_method = POST, rq_url = token_url, rq_authorization = [], rq_params = None,
      rq_json = None,
      rq_form = Some [(''grant_type'', ''refresh_token''),
                      (''refresh_token'', cl_refresh_token cl),
                      (''client_id'', client_id cl),
                      (''client_secret'', client_secret cl)]\<rparr>"

text \<open>
  \<open>refresh_access_token\<close>: every exception is caught and gives \<open>False\<close>; so do a body
  that is no JSON and a JSON object without \<open>access_token\<close>.
\<close>

definition refresh_access_token :: "server \<Rightarrow> cleaner \<Rightarrow> world \<Rightarrow> bool \<times> cleaner \<times> world" where
  "refresh_access_token srv cl w =
     (case send srv (refresh_request cl) w of
        (RequestException, w1) \<Rightarrow> (False, cl, w1)
      | (Response r, w1) \<Rightarrow>
          (if status_code r = 200 then
             (case text_body r of
                JsonText token_data \<Rightarrow>
                  (case p_access_token token_data of
                     Some tok \<Rightarrow>
                       (True, cl\<lparr>cl_access_token := tok, cl_authorization := bearer tok\<rparr>, w1)
                   | None \<Rightarrow> (False, cl, w1))
              | BlankText \<Rightarrow> (False, cl, w1)
              | OtherText \<Rightarrow> (False, cl, w1))
           else (False, cl, w1)))"

text \<open>
  \<open>make_spotify_request\<close>: the same loop of three attempts, with a token refresh on
  status 401, success on status 204, and every exception caught.
\<close>

fun make_spotify_request_attempts ::
  "server \<Rightarrow> cleaner \<Rightarrow> call \<Rightarrow> nat list \<Rightarrow> world \<Rightarrow> payload option \<times> cleaner \<times> world" where
  "make_spotify_request_attempts srv cl c [] w = (None, cl, w)"
| "make_spotify_request_attempts srv cl c (attempt # rest) w =
     (let on_exception = (\<lambda>w'.
            if attempt < 2 then make_spotify_request_attempts srv cl c rest (sleep_ms 2000 w')
            else (None, cl, w'))
      in case send srv (build_request (cl_authorization cl) c) w of
           (RequestException, w1) \<Rightarrow> on_exception w1
         | (Response r, w1) \<Rightarrow>
             (if status_code r = 401 then
                (case refresh_access_token srv cl w1 of
                   (True, cl', w2) \<Rightarrow> make_spotify_request_attempts srv cl' c rest w2
                 | (False, cl', w2) \<Rightarrow> (None, cl', w2))
              else if status_code r = 429 then
                (case retry_after_seconds r of
                   Inl e \<Rightarrow> on_exception w1
                 | Inr n \<Rightarrow>
                     (case sleep n w1 of
                        Inl e \<Rightarrow> on_exception w1
                      | Inr w2 \<Rightarrow> make_spotify_request_attempts srv cl c rest w2))
              else if status_code r = 200 then (on_status_200 (c_method c) r, cl, w1)
              else if status_code r = 204 then (Some success_payload, cl, w1)
              else (None, cl, w1)))"

definition make_spotify_request ::
  "server \<Rightarrow> cleaner \<Rightarrow> call \<Rightarrow> world \<Rightarrow> payload option \<times> cleaner \<times> world" where
  "make_spotify_request srv cl c w = make_spotify_request_attempts srv cl c [0, 1, 2] w"

text \<open>
  The body of the loop over the liked songs in \<open>clean_liked_songs\<close>. Every read is a
  \<open>.get\<close> with a default, and the parse of the timestamp sits in \<open>try\<close>: when it
  fails the song is appended for removal.
\<close>

record song_to_remove =
  sr_id :: "string option"
  sr_name :: string
  sr_artists :: string
  sr_added_at :: string

fun join_comma_space :: "string list \<Rightarrow> string" where
  "join_comma_space [] = []"
| "join_comma_space [x] = x"
| "join_comma_space (x # y # ys) = x @ '', '' @ join_comma_space (y # ys)"

definition clean_item ::
  "(string \<Rightarrow> int option) \<Rightarrow> string set \<Rightarrow> cleaner \<Rightarrow> element \<Rightarrow> song_to_remove option" where
  "clean_item fromisoformat recently_played_ids cl item =
     (let track = (case item of SavedTrack li \<Rightarrow> Some (li_track li)
                              | PlayHistory t \<Rightarrow> Some t
                              | TrackObject t \<Rightarrow> None);
          track_id = map_option t_id track;
          track_name = (case track of None \<Rightarrow> ''Unknown'' | Some t \<Rightarrow> t_name t);
          artists = join_comma_space (case track of None \<Rightarrow> [] | Some t \<Rightarrow> t_artists t);
          added_at = (case item of SavedTrack li \<Rightarrow> li_added_at li
                                 | PlayHistory t \<Rightarrow> []
                                 | TrackObject t \<Rightarrow> []);
          song = \<lparr>sr_id = track_id, sr_name = track_name, sr_artists = artists,
                  sr_added_at = added_at\<rparr>
      in if (case track_id of None \<Rightarrow> True | Some i \<Rightarrow> i \<notin> recently_played_ids) then
           (case fromisoformat (replace_Z added_at) of
              Some added_date \<Rightarrow> (if added_date < six_months_ago cl then Some song else None)
            | None \<Rightarrow> Some song)
         else None)"

section \<open>Observations and scenarios\<close>

text \<open>
  \<open>sent_only m w w'\<close>: between the worlds \<open>w\<close> and \<open>w'\<close> only requests of method
  \<open>m\<close> were sent. \<open>rate_limited r n\<close>: the response \<open>r\<close> has status 429 and asks for
  \<open>n\<close> seconds of delay.
\<close>

definition sent_only :: "http_method \<Rightarrow> world \<Rightarrow> world \<Rightarrow> bool" where
  "sent_only m w w' \<longleftrightarrow>
     (\<exists>new. exchanges w' = exchanges w @ new \<and> (\<forall>x \<in> set new. rq_method (fst x) = m))"





text \<open>Concrete servers, tracks and clocks, on which the scenarios below are run.\<close>

definition ok_json :: "payload \<Rightarrow> http_outcome" where
  "ok_json p = Response \<lparr>status_code = 200, retry_after = NoHeader, text_body = JsonText p\<rparr>"

definition status_only :: "nat \<Rightarrow> http_outcome" where
  "status_only code = Response \<lparr>status_code = code, retry_after = NoHeader, text_body = BlankText\<rparr>"


definition page_of :: "element list \<Rightarrow> payload" where
  "page_of xs = \<lparr>p_items = Some xs, p_success = None, p_access_token = None, p_other = True\<rparr>"

definition profile :: payload where
  "profile = \<lparr>p_items = None, p_success = None, p_access_token = None, p_other = True\<rparr>"

definition token_payload :: "string \<Rightarrow> payload" where
  "token_payload tok = \<lparr>p_items = None, p_success = None, p_access_token = Some tok, p_other = True\<rparr>"

definition int_param :: "string \<Rightarrow> http_request \<Rightarrow> nat" where
  "int_param k rq =
     (case rq_params rq of
        None \<Rightarrow> 0
      | Some ps \<Rightarrow> (case map_of ps k of Some (PInt i) \<Rightarrow> nat i | Some (PStr v) \<Rightarrow> 0 | None \<Rightarrow> 0))"

text \<open>
  A server that holds a library of liked songs and serves it in pages, serves one list of
  recently played items and one list of top tracks, and accepts every removal.
\<close>

definition library_server :: "element list \<Rightarrow> element list \<Rightarrow> element list \<Rightarrow> server" where
  "library_server liked played tops h rq =
     (if rq_method rq = DELETE then status_only 200
      else if rq_url rq = base_url @ ''/me/tracks''
        then ok_json (page_of (take (int_param ''limit'' rq) (drop (int_param ''offset'' rq) liked)))
      else if rq_url rq = base_url @ ''/me/player/recently-played'' then ok_json (page_of played)
      else ok_json (page_of tops))"

text \<open>The same server, answering with status 500 once \<open>n\<close> exchanges have taken place.\<close>

definition failing_from :: "nat \<Rightarrow> server \<Rightarrow> server" where
  "failing_from n srv h rq = (if n \<le> length h then status_only 500 else srv h rq)"


text \<open>
  A server that accepts the access token \<open>fresh\<close> only, answers every other one with
  status 401, and hands out \<open>fresh\<close> at the token endpoint.
\<close>

definition expiring_server :: server where
  "expiring_server h rq =
     (if rq_url rq = token_url then ok_json (token_payload ''fresh'')
      else if rq_authorization rq = bearer ''fresh'' then ok_json profile
      else status_only 401)"

definition example_album :: album where
  "example_album = \<lparr>alb_name = ''album'', alb_images = [''https://i.scdn.co/image/1'']\<rparr>"

definition example_track :: "nat \<Rightarrow> track" where
  "example_track n =
     \<lparr>t_id = [char_of (48 + n div 10), char_of (48 + n mod 10)], t_name = ''song'',
      t_artists = [''artist''], t_album = Some example_album\<rparr>"

definition old_item :: "nat \<Rightarrow> element" where
  "old_item n = SavedTrack \<lparr>li_track = example_track n, li_added_at = ''2020-01-01T00:00:00Z''\<rparr>"

definition new_item :: "nat \<Rightarrow> element" where
  "new_item n = SavedTrack \<lparr>li_track = example_track n, li_added_at = ''2024-05-01T00:00:00Z''\<rparr>"

definition undated_item :: "nat \<Rightarrow> element" where
  "undated_item n = SavedTrack \<lparr>li_track = example_track n, li_added_at = ''yesterday''\<rparr>"

definition albumless_item :: "nat \<Rightarrow> element" where
  "albumless_item n =
     SavedTrack \<lparr>li_track = (example_track n)\<lparr>t_album := None\<rparr>,
                 li_added_at = ''2020-01-01T00:00:00Z''\<rparr>"

definition imageless_item :: "nat \<Rightarrow> element" where
  "imageless_item n =
     SavedTrack \<lparr>li_track = (example_track n)\<lparr>t_album := Some \<lparr>alb_name = ''album'', alb_images = []\<rparr>\<rparr>,
                 li_added_at = ''2020-01-01T00:00:00Z''\<rparr>"

text \<open>
  A stand-in for \<open>fromisoformat\<close> that knows two timestamps, 1 January 2020 and
  1 May 2024, and rejects every other string; the clock reads 1 June 2024.
\<close>

definition example_fromisoformat :: "string \<Rightarrow> int option" where
  "example_fromisoformat str =
     (if str = ''2020-01-01T00:00:00+00:00'' then Some 63713433600000000
      else if str = ''2024-05-01T00:00:00+00:00'' then Some 63850118400000000
      else None)"

definition example_now :: int where
  "example_now = 63852796800000000"

definition example_service :: service where
  "example_service = \<lparr>access_token = ''token'', refresh_token = Some ''refresh''\<rparr>"

definition example_cleaner :: cleaner where
  "example_cleaner =
     \<lparr>client_id = ''id'', client_secret = ''secret'', cl_access_token = ''token'',
      cl_refresh_token = ''refresh'', cl_authorization = bearer ''token'',
      six_months_ago = 63837244800000000\<rparr>"

definition initial_world :: world where
  "initial_world = \<lparr>exchanges = [], slept_ms = 0\<rparr>"

definition profile_call :: call where
  "profile_call = \<lparr>c_endpoint = ''/me'', c_method = GET, c_data = None, c_params = None\<rparr>"

section \<open>Properties of the transport\<close>

lemma sent_only_refl: "sent_only m w w"
  by (simp add: sent_only_def)

lemma sent_only_trans: "sent_only m w w1 \<Longrightarrow> sent_only m w1 w2 \<Longrightarrow> sent_only m w w2"
  by (auto simp: sent_only_def)

lemma rq_method_build_request: "rq_method (build_request auth c) = c_method c"
  by (cases "c_method c") (auto simp: build_request_def Let_def split: option.splits)

lemma send_exchanges:
  "send srv rq w = (out, w') \<Longrightarrow>
     exchanges w' = exchanges w @ [(rq, out)] \<and> slept_ms w' = slept_ms w \<and> out = srv (exchanges w) rq"
  by (auto simp: send_def Let_def)

lemma sleep_exchanges: "sleep n w = Inr w' \<Longrightarrow> exchanges w' = exchanges w"
  by (auto simp: sleep_def split: if_splits)

lemma sleep_ms_exchanges: "exchanges (sleep_ms n w) = exchanges w"
  by (simp add: sleep_ms_def)

lemma make_request_attempts_trace:
  "make_request_attempts srv s c as w = (res, w') \<Longrightarrow>
     \<exists>outs. length outs \<le> length as \<and>
       exchanges w' = exchanges w @ map (Pair (build_request (bearer (access_token s)) c)) outs"
proof (induction as arbitrary: w)
  case Nil
  then show ?case by simp
next
  case (Cons a as)
  let ?rq = "build_request (bearer (access_token s)) c"
  obtain out w1 where snd: "send srv ?rq w = (out, w1)"
    by (cases "send srv ?rq w")
  then have ex1: "exchanges w1 = exchanges w @ [(?rq, out)]"
    by (simp add: send_exchanges)
  have stop: "w' = w1 \<Longrightarrow> ?case"
  proof -
    assume "w' = w1"
    then have "exchanges w' = exchanges w @ map (Pair ?rq) [out]"
      using ex1 by simp
    moreover have "length [out] \<le> length (a # as)" by simp
    ultimately show ?case by blast
  qed
  have continue: "\<And>w2. exchanges w2 = exchanges w1 \<Longrightarrow>
       make_request_attempts srv s c as w2 = (res, w') \<Longrightarrow> ?case"
  proof -
    fix w2 assume e: "exchanges w2 = exchanges w1"
      and r: "make_request_attempts srv s c as w2 = (res, w')"
    from Cons.IH [OF r] obtain outs where
      "length outs \<le> length as" "exchanges w' = exchanges w2 @ map (Pair ?rq) outs"
      by blast
    then have "exchanges w' = exchanges w @ map (Pair ?rq) (out # outs)"
      "length (out # outs) \<le> length (a # as)"
      using e ex1 by simp_all
    then show ?case by blast
  qed
  have "w' = w1 \<or> (\<exists>w2. exchanges w2 = exchanges w1 \<and>
            make_request_attempts srv s c as w2 = (res, w'))"
    using Cons.prems snd
    by (auto split: http_outcome.splits if_splits sum.splits
        dest: sleep_exchanges simp: sleep_ms_exchanges)
  then show ?case
    using stop continue by blast
qed

lemma make_request_trace:
  assumes "make_request srv s c w = (res, w')"
  shows "\<exists>outs. length outs \<le> 3 \<and>
       exchanges w' = exchanges w @ map (Pair (build_request (bearer (access_token s)) c)) outs"
proof -
  from assms have "make_request_attempts srv s c [0, 1, 2] w = (res, w')"
    by (simp only: make_request_def)
  from make_request_attempts_trace [OF this] obtain outs where
    "length outs \<le> length [0::nat, 1, 2]"
    "exchanges w' = exchanges w @ map (Pair (build_request (bearer (access_token s)) c)) outs"
    by blast
  then show ?thesis
    by (intro exI [of _ outs]) simp
qed

lemma make_request_sent_only:
  "make_request srv s c w = (res, w') \<Longrightarrow> sent_only (c_method c) w w'"
  by (drule make_request_trace) (auto simp: sent_only_def rq_method_build_request)





section \<open>Claims about the rate-limited client\<close>





text \<open>
  Claim C4. A response of status 401 should start a token refresh and, when the refresh
  succeeds, a retry with the new authorization header. \<open>make_request\<close> of the web
  service returns \<open>None\<close> after the one request, without any exchange with the token
  endpoint; \<open>make_spotify_request\<close> of the cleaner, on the same server, refreshes the
  token and repeats the request under the new header.
\<close>

theorem service_does_not_refresh_on_401:
  "make_request expiring_server example_service profile_call initial_world =
     (Inr None,
      \<lparr>exchanges = [(build_request (bearer ''token'') profile_call, status_only 401)],
       slept_ms = 0\<rparr>) \<and>
   make_spotify_request expiring_server example_cleaner profile_call initial_world =
     (Some profile,
      example_cleaner\<lparr>cl_access_token := ''fresh'', cl_authorization := bearer ''fresh''\<rparr>,
      \<lparr>exchanges =
         [(build_request (bearer ''token'') profile_call, status_only 401),
          (refresh_request example_cleaner, ok_json (token_payload ''fresh'')),
          (build_request (bearer ''fresh'') profile_call, ok_json profile)],
       slept_ms = 0\<rparr>)"
  by (simp add: make_request_def make_spotify_request_def refresh_access_token_def send_def Let_def
      expiring_server_def status_only_def ok_json_def token_payload_def profile_def
      example_service_def example_cleaner_def initial_world_def profile_call_def
      build_request_def refresh_request_def token_url_def base_url_def bearer_def
      on_status_200_def)

section \<open>Claims about the classifier\<close>





text \<open>
  Claim C5. An entry outside the active set whose timestamp does not parse should be
  marked for removal without any error. The cleaner does so; in the web service the parse
  is outside any \<open>try\<close>, so the ValueError ends both the analysis and the preview.
\<close>

theorem malformed_timestamp_aborts_the_service_run:
  "analyze_item example_fromisoformat {} 63837244800000000 (undated_item 7) = Inl ValueError \<and>
   preview_item example_fromisoformat {} 63837244800000000 (undated_item 7) = Inl ValueError \<and>
   map_option fst
     (analyze_and_cleanup (library_server [undated_item 7] [] []) example_fromisoformat example_now
        example_service 6 initial_world) = Some (Inl ValueError) \<and>
   clean_item example_fromisoformat {} example_cleaner (undated_item 7) =
     Some \<lparr>sr_id = Some (t_id (example_track 7)), sr_name = ''song'', sr_artists = ''artist'',
           sr_added_at = ''yesterday''\<rparr>"
  by (simp add: analyze_item_def preview_item_def clean_item_def item_track_def item_added_at_def
      parse_added_at_def example_fromisoformat_def replace_Z_def undated_item_def example_track_def
      Let_def analyze_and_cleanup_def get_liked_songs_def get_liked_songs_loop.simps
      make_request_def send_def library_server_def page_call_def build_request_def
      example_service_def initial_world_def ok_json_def page_of_def int_param_def
      on_status_200_def truthy_def get_recent_activity_def get_recently_played_def
      get_top_tracks_def items_or_empty_def tracks_to_remove_of_def active_track_ids_def
      cutoff_date_def example_now_def microseconds_per_day_def max_instant_def base_url_def)

text \<open>
  Claim C10. The record of a removal candidate should be built when the album is missing
  or has no image. The web service defaults the image of an album without images, but a
  missing album raises TypeError and ends the run; the cleaner reads every field with a
  default.
\<close>

theorem missing_album_aborts_the_service_run:
  "analyze_item example_fromisoformat {} 63837244800000000 (albumless_item 7) = Inl TypeError \<and>
   preview_item example_fromisoformat {} 63837244800000000 (albumless_item 7) = Inl TypeError \<and>
   map_option fst
     (preview_cleanup (library_server [albumless_item 7] [] []) example_fromisoformat example_now
        example_service 6 initial_world) = Some (Inl TypeError) \<and>
   map_option fst
     (analyze_and_cleanup (library_server [albumless_item 7] [] []) example_fromisoformat example_now
        example_service 6 initial_world) = Some (Inl TypeError) \<and>
   preview_item example_fromisoformat {} 63837244800000000 (imageless_item 7) =
     Inr (Some \<lparr>pt_id = t_id (example_track 7), pt_name = ''song'', pt_artist = ''artist'',
                pt_album = ''album'', pt_added_at = 63713433600000000, pt_preview_image = None\<rparr>) \<and>
   clean_item example_fromisoformat {} example_cleaner (albumless_item 7) =
     Some \<lparr>sr_id = Some (t_id (example_track 7)), sr_name = ''song'', sr_artists = ''artist'',
           sr_added_at = ''2020-01-01T00:00:00Z''\<rparr>"
  by (simp add: analyze_item_def preview_item_def clean_item_def item_track_def item_added_at_def
      parse_added_at_def example_fromisoformat_def replace_Z_def albumless_item_def
      imageless_item_def example_track_def removal_record_def preview_record_def first_artist_def
      album_of_def preview_image_of_def example_cleaner_def
      Let_def analyze_and_cleanup_def preview_cleanup_def preview_report_def
      get_liked_songs_def get_liked_songs_loop.simps
      make_request_def send_def library_server_def page_call_def build_request_def
      example_service_def initial_world_def ok_json_def page_of_def int_param_def
      on_status_200_def truthy_def get_recent_activity_def get_recently_played_def
      get_top_tracks_def items_or_empty_def tracks_to_remove_of_def active_track_ids_def
      cutoff_date_def example_now_def microseconds_per_day_def max_instant_def base_url_def)


section \<open>Claims about the batch remover\<close>

lemma remove_tracks_from_sent_only:
  "remove_tracks_from srv s track_ids i w = (res, w') \<Longrightarrow> sent_only DELETE w w'"
proof (induction srv s track_ids i w rule: remove_tracks_from.induct)
  case (1 srv s track_ids i w)
  show ?case
  proof (cases "length track_ids \<le> i")
    case True
    with "1.prems" show ?thesis
      by (simp add: sent_only_refl)
  next
    case False
    let ?c = "delete_call (take batch_size (drop i track_ids))"
    obtain r w1 where mr: "make_request srv s ?c w = (r, w1)"
      by (cases "make_request srv s ?c w")
    have step: "sent_only DELETE w w1"
      using make_request_sent_only [OF mr] by (simp add: delete_call_def)
    show ?thesis
    proof (cases r)
      case (Inl e)
      with "1.prems" False mr step show ?thesis by simp
    next
      case (Inr response)
      show ?thesis
      proof (cases "removal_failed response")
        case True
        with "1.prems" False mr Inr step show ?thesis by simp
      next
        case f: False
        have "remove_tracks_from srv s track_ids (i + batch_size) w1 = (res, w')"
          using "1.prems" False mr Inr f by simp
        from "1.IH" [OF False mr [symmetric] Inr f this] step show ?thesis
          by (rule sent_only_trans [rotated])
      qed
    qed
  qed
qed

lemma accepted_removal:
  assumes ok: "\<And>h rq. rq_method rq = DELETE \<Longrightarrow>
                 \<exists>r. srv h rq = Response r \<and> status_code r = 200 \<and>
                     \<not> removal_failed (on_status_200 DELETE r)"
  shows "\<exists>response w1. make_request srv s (delete_call b) w = (Inr response, w1) \<and>
           \<not> removal_failed response \<and>
           map fst (exchanges w1) =
             map fst (exchanges w) @ [build_request (bearer (access_token s)) (delete_call b)]"
proof -
  let ?rq = "build_request (bearer (access_token s)) (delete_call b)"
  have "rq_method ?rq = DELETE"
    by (simp add: rq_method_build_request delete_call_def)
  from ok [OF this, of "exchanges w"] obtain r where
    r: "srv (exchanges w) ?rq = Response r" "status_code r = 200"
      "\<not> removal_failed (on_status_200 DELETE r)"
    by blast
  have "c_method (delete_call b) = DELETE"
    by (simp add: delete_call_def)
  with r show ?thesis
    by (simp add: make_request_def send_def Let_def)
qed

lemma batches_count_step:
  fixes i n :: nat
  assumes "i < n"
  shows "Suc ((n - (i + 50) + 49) div 50) = (n - i + 49) div 50"
proof (cases "i + 50 \<le> n")
  case True
  define m where "m = n - (i + 50)"
  with True have m: "n = i + 50 + m"
    by simp
  show ?thesis
    unfolding m by simp
next
  case False
  define k where "k = n - Suc i"
  with assms False have k: "n = i + Suc k" "k < 49"
    by simp_all
  have "(Suc k + 49) div 50 = 1"
    using k(2) by (intro div_nat_eqI) simp_all
  then show ?thesis
    unfolding k by simp
qed

lemma remove_tracks_from_batches:
  assumes ok: "\<And>h rq. rq_method rq = DELETE \<Longrightarrow>
                 \<exists>r. srv h rq = Response r \<and> status_code r = 200 \<and>
                     \<not> removal_failed (on_status_200 DELETE r)"
  shows "\<exists>bs w'. remove_tracks_from srv s track_ids i w = (Inr True, w') \<and>
           map fst (exchanges w') =
             map fst (exchanges w) @
             map (\<lambda>b. build_request (bearer (access_token s)) (delete_call b)) bs \<and>
           concat bs = drop i track_ids \<and>
           (\<forall>b \<in> set bs. 0 < length b \<and> length b \<le> batch_size) \<and>
           length bs = (length track_ids - i + (batch_size - 1)) div batch_size"
  using ok
proof (induction srv s track_ids i w rule: remove_tracks_from.induct)
  case (1 srv s track_ids i w)
  show ?case
  proof (cases "length track_ids \<le> i")
    case True
    then have "remove_tracks_from srv s track_ids i w = (Inr True, w)"
      by simp
    moreover have "(length track_ids - i + (batch_size - 1)) div batch_size = 0"
      using True by (simp add: batch_size_def)
    ultimately show ?thesis
      using True by (intro exI [of _ "[]"] exI [of _ w]) simp
  next
    case False
    let ?b = "take batch_size (drop i track_ids)"
    let ?mk = "\<lambda>b. build_request (bearer (access_token s)) (delete_call b)"
    from accepted_removal [of srv s ?b w, OF "1.prems"] obtain response w1 where
      mr: "make_request srv s (delete_call ?b) w = (Inr response, w1)"
      and nf: "\<not> removal_failed response"
      and ex1: "map fst (exchanges w1) = map fst (exchanges w) @ [?mk ?b]"
      by blast
    from "1.IH" [OF False mr [symmetric] refl nf "1.prems"] obtain bs w' where
      run: "remove_tracks_from srv s track_ids (i + batch_size) w1 = (Inr True, w')"
      and ex: "map fst (exchanges w') = map fst (exchanges w1) @ map ?mk bs"
      and cc: "concat bs = drop (i + batch_size) track_ids"
      and sz: "\<forall>b \<in> set bs. 0 < length b \<and> length b \<le> batch_size"
      and len: "length bs = (length track_ids - (i + batch_size) + (batch_size - 1)) div batch_size"
      by blast
    have "remove_tracks_from srv s track_ids i w = (Inr True, w')"
      using False mr nf run by simp
    moreover have "map fst (exchanges w') = map fst (exchanges w) @ map ?mk (?b # bs)"
      using ex ex1 by simp
    moreover have "concat (?b # bs) = drop i track_ids"
    proof -
      have "drop (i + batch_size) track_ids = drop batch_size (drop i track_ids)"
        by (simp only: drop_drop add.commute)
      with cc have "concat bs = drop batch_size (drop i track_ids)"
        by (simp only:)
      then have "concat (?b # bs) = ?b @ drop batch_size (drop i track_ids)"
        by simp
      then show ?thesis
        by (simp only: append_take_drop_id)
    qed
    moreover have "\<forall>b \<in> set (?b # bs). 0 < length b \<and> length b \<le> batch_size"
    proof -
      have "0 < length ?b \<and> length ?b \<le> batch_size"
        using False by (simp add: batch_size_def)
      with sz show ?thesis
        by simp
    qed
    moreover have "length (?b # bs) = (length track_ids - i + (batch_size - 1)) div batch_size"
    proof -
      have "i < length track_ids"
        using False by simp
      from batches_count_step [OF this] len show ?thesis
        by (simp add: batch_size_def)
    qed
    ultimately show ?thesis
      by blast
  qed
qed

text \<open>
  Claim C6. When the server accepts every removal (status 200 and a body that counts as
  success), \<open>remove_tracks_from_liked\<close> sends exactly one DELETE per batch: the batches
  are consecutive slices of the list, in order, each of 1 to 50 identifiers, and there are
  \<open>(N + 49) div 50\<close> of them, which is N / 50 rounded up. What happens when a batch fails
  is the matter of claim C2.
\<close>

theorem removal_issues_one_call_per_batch_of_50:
  assumes "\<And>h rq. rq_method rq = DELETE \<Longrightarrow>
             \<exists>r. srv h rq = Response r \<and> status_code r = 200 \<and>
                 \<not> removal_failed (on_status_200 DELETE r)"
  shows "\<exists>bs w'. remove_tracks_from_liked srv s track_ids w = (Inr True, w') \<and>
           map fst (exchanges w') =
             map fst (exchanges w) @
             map (\<lambda>b. build_request (bearer (access_token s)) (delete_call b)) bs \<and>
           concat bs = track_ids \<and>
           (\<forall>b \<in> set bs. 0 < length b \<and> length b \<le> 50) \<and>
           length bs = (length track_ids + 49) div 50"
  using remove_tracks_from_batches [of srv s track_ids 0 w, OF assms]
  by (simp add: remove_tracks_from_liked_def batch_size_def)

theorem removal_issues_one_call_per_batch_of_50_witness:
  "fst (remove_tracks_from_liked (library_server [] [] []) example_service
          (map (\<lambda>n. t_id (example_track n)) [0..<51]) initial_world) = Inr True \<and>
   length (exchanges (snd (remove_tracks_from_liked (library_server [] [] []) example_service
          (map (\<lambda>n. t_id (example_track n)) [0..<51]) initial_world))) = 2"
proof -
  let ?srv = "library_server [] [] []"
  let ?ids = "map (\<lambda>n. t_id (example_track n)) [0..<51]"
  have ok: "\<And>h rq. rq_method rq = DELETE \<Longrightarrow>
              \<exists>r. ?srv h rq = Response r \<and> status_code r = 200 \<and>
                  \<not> removal_failed (on_status_200 DELETE r)"
    by (simp add: library_server_def status_only_def on_status_200_def removal_failed_def
        success_payload_def truthy_def)
  from removal_issues_one_call_per_batch_of_50 [of ?srv example_service ?ids initial_world, OF ok]
  obtain bs w' where
    r: "remove_tracks_from_liked ?srv example_service ?ids initial_world = (Inr True, w')"
    and ex: "map fst (exchanges w') =
        map fst (exchanges initial_world) @
        map (\<lambda>b. build_request (bearer (access_token example_service)) (delete_call b)) bs"
    and len: "length bs = (length ?ids + 49) div 50"
    by blast
  have "length (exchanges w') = length (map fst (exchanges w'))"
    by simp
  also have "\<dots> = length bs"
    unfolding ex by (simp add: initial_world_def)
  also have "\<dots> = 2"
    using len by simp
  finally show ?thesis
    using r by simp
qed

text \<open>Running the first \<open>k\<close> full batches alone, then going on from there.\<close>

lemma remove_tracks_from_prefix:
  assumes "remove_tracks_from srv s (take (k * batch_size) track_ids) (j * batch_size) w = (Inr True, w1)"
    and "j \<le> k" and "k * batch_size \<le> length track_ids"
  shows "remove_tracks_from srv s track_ids (j * batch_size) w =
           remove_tracks_from srv s track_ids (k * batch_size) w1"
  using assms
proof (induction "k - j" arbitrary: j w)
  case 0
  then have "j = k" by simp
  with "0.prems" show ?case
    by simp
next
  case (Suc d)
  then have jk: "j < k" by simp
  then have lt: "j * batch_size < k * batch_size"
    by (simp add: batch_size_def)
  have step: "Suc j * batch_size \<le> k * batch_size"
    using jk by (simp add: Suc_leI batch_size_def)
  let ?pre = "take (k * batch_size) track_ids"
  have b: "take batch_size (drop (j * batch_size) ?pre) =
           take batch_size (drop (j * batch_size) track_ids)"
  proof -
    have "drop (j * batch_size) ?pre = take (k * batch_size - j * batch_size) (drop (j * batch_size) track_ids)"
      by (simp add: drop_take)
    moreover have "batch_size \<le> k * batch_size - j * batch_size"
      using step by simp
    ultimately show ?thesis
      by (simp add: min_absorb1)
  qed
  have len: "length ?pre = k * batch_size"
    using Suc.prems(3) by simp
  have nle_pre: "\<not> length ?pre \<le> j * batch_size"
    unfolding len using lt by linarith
  have nle_all: "\<not> length track_ids \<le> j * batch_size"
    using lt Suc.prems(3) by linarith
  obtain r w2 where mr:
    "make_request srv s (delete_call (take batch_size (drop (j * batch_size) track_ids))) w = (r, w2)"
    by (cases "make_request srv s (delete_call (take batch_size (drop (j * batch_size) track_ids))) w")
  have unfold_pre: "remove_tracks_from srv s ?pre (j * batch_size) w =
      (case r of Inl e \<Rightarrow> (Inl e, w2)
       | Inr response \<Rightarrow> if removal_failed response then (Inr False, w2)
           else remove_tracks_from srv s ?pre (j * batch_size + batch_size) w2)"
    using nle_pre mr b by (subst remove_tracks_from.simps) simp
  have unfold_all: "remove_tracks_from srv s track_ids (j * batch_size) w =
      (case r of Inl e \<Rightarrow> (Inl e, w2)
       | Inr response \<Rightarrow> if removal_failed response then (Inr False, w2)
           else remove_tracks_from srv s track_ids (j * batch_size + batch_size) w2)"
    using nle_all mr by (subst remove_tracks_from.simps) simp
  from Suc.prems(1) unfold_pre obtain response where
    r: "r = Inr response" "\<not> removal_failed response"
    and rest: "remove_tracks_from srv s ?pre (Suc j * batch_size) w2 = (Inr True, w1)"
    by (cases r) (auto split: if_splits simp: add.commute)
  have "remove_tracks_from srv s track_ids (Suc j * batch_size) w2 =
        remove_tracks_from srv s track_ids (k * batch_size) w1"
    using Suc.hyps(2) jk Suc.prems(3) by (intro Suc.hyps(1) rest) simp_all
  then show ?case
    using unfold_all r by (simp add: add.commute)
qed

text \<open>
  Claim C2, as amended. Batch removal stops at the first failed batch: when the first
  \<open>k\<close> batches succeed and the call for the next one fails, the result is \<open>False\<close>
  and the world is the one right after the failed call, so no later batch is sent; every
  request sent is a DELETE, so nothing is added back. The result is a boolean only.
\<close>

theorem removal_stops_at_first_failed_batch:
  assumes "remove_tracks_from_liked srv s (take (k * 50) track_ids) w = (Inr True, w1)"
    and "k * 50 < length track_ids"
    and "make_request srv s (delete_call (take 50 (drop (k * 50) track_ids))) w1 = (Inr response, w2)"
    and "removal_failed response"
  shows "remove_tracks_from_liked srv s track_ids w = (Inr False, w2) \<and>
         (\<exists>new. exchanges w2 = exchanges w @ new \<and> (\<forall>x \<in> set new. rq_method (fst x) = DELETE))"
proof -
  have "remove_tracks_from srv s (take (k * batch_size) track_ids) (0 * batch_size) w = (Inr True, w1)"
    using assms(1) by (simp add: remove_tracks_from_liked_def batch_size_def)
  then have "remove_tracks_from srv s track_ids (0 * batch_size) w =
        remove_tracks_from srv s track_ids (k * batch_size) w1"
    using assms(2) by (intro remove_tracks_from_prefix) (simp_all add: batch_size_def)
  also have "\<dots> = (Inr False, w2)"
  proof -
    have "\<not> length track_ids \<le> k * batch_size"
      using assms(2) by (simp add: batch_size_def)
    moreover have "make_request srv s
        (delete_call (take batch_size (drop (k * batch_size) track_ids))) w1 = (Inr response, w2)"
      using assms(3) by (simp add: batch_size_def)
    ultimately show ?thesis
      using assms(4) by (subst remove_tracks_from.simps) simp
  qed
  finally have run: "remove_tracks_from_liked srv s track_ids w = (Inr False, w2)"
    by (simp add: remove_tracks_from_liked_def)
  then have "sent_only DELETE w w2"
    unfolding remove_tracks_from_liked_def by (rule remove_tracks_from_sent_only)
  with run show ?thesis
    by (simp add: sent_only_def)
qed

theorem removal_stops_at_first_failed_batch_witness:
  "fst (remove_tracks_from_liked (failing_from 1 (library_server [] [] [])) example_service
          (map (\<lambda>n. t_id (example_track n)) [0..<51]) initial_world) = Inr False \<and>
   map snd (exchanges (snd (remove_tracks_from_liked (failing_from 1 (library_server [] [] []))
          example_service (map (\<lambda>n. t_id (example_track n)) [0..<51]) initial_world))) =
     [status_only 200, status_only 500]"
proof -
  let ?srv = "failing_from 1 (library_server [] [] [])"
  let ?ids = "map (\<lambda>n. t_id (example_track n)) [0..<51]"
  let ?R = "remove_tracks_from_liked ?srv example_service (take (1 * 50) ?ids) initial_world"
  let ?M = "make_request ?srv example_service (delete_call (take 50 (drop (1 * 50) ?ids))) (snd ?R)"
  have "fst ?R = Inr True"
    by code_simp
  then have h1: "?R = (Inr True, snd ?R)"
    by (simp add: prod_eq_iff)
  have h2: "1 * 50 < length ?ids"
    by simp
  have "fst ?M = Inr None"
    by code_simp
  then have h3: "?M = (Inr None, snd ?M)"
    by (simp add: prod_eq_iff)
  have h4: "removal_failed None"
    by (simp add: removal_failed_def)
  from removal_stops_at_first_failed_batch [OF h1 h2 h3 h4]
  have run: "remove_tracks_from_liked ?srv example_service ?ids initial_world = (Inr False, snd ?M)"
    by blast
  have "map snd (exchanges (snd ?M)) = [status_only 200, status_only 500]"
    by code_simp
  with run show ?thesis
    by simp
qed

text \<open>
  Claim C2 as stated fails: the outcome is \<open>False\<close> both when the first batch of 50 was
  removed before the second failed and when the very first batch failed, and
  \<open>analyze_and_cleanup\<close> then reports 0 songs removed and all 51 kept although the
  server has acknowledged the removal of 50.
\<close>

theorem removal_outcome_hides_partial_success_counterexample:
  "fst (remove_tracks_from_liked (failing_from 1 (library_server [] [] [])) example_service
          (map (\<lambda>n. t_id (example_track n)) [0..<51]) initial_world) = Inr False \<and>
   map snd (exchanges (snd (remove_tracks_from_liked (failing_from 1 (library_server [] [] []))
          example_service (map (\<lambda>n. t_id (example_track n)) [0..<51]) initial_world))) =
     [status_only 200, status_only 500] \<and>
   fst (remove_tracks_from_liked (failing_from 0 (library_server [] [] [])) example_service
          (map (\<lambda>n. t_id (example_track n)) [0..<51]) initial_world) = Inr False \<and>
   map snd (exchanges (snd (remove_tracks_from_liked (failing_from 0 (library_server [] [] []))
          example_service (map (\<lambda>n. t_id (example_track n)) [0..<51]) initial_world))) =
     [status_only 500] \<and>
   map_option (\<lambda>x. (map_sum id (\<lambda>r. (songs_removed r, songs_kept r, removed_tracks r)) (fst x),
                      map snd (drop 5 (exchanges (snd x)))))
     (analyze_and_cleanup (failing_from 6 (library_server (map old_item [0..<51]) [] []))
        example_fromisoformat example_now example_service 6 initial_world) =
     Some (Inr (0, 51, []), [status_only 200, status_only 500])"
  by code_simp


section \<open>Claims about the full-library fetch\<close>

lemma get_liked_songs_loop_stop:
  assumes "make_request srv s (page_call limit offset) w = (Inr response, w1)"
    and "length (items_or_empty response) < limit"
  shows "get_liked_songs_loop srv s limit offset songs w =
           Some (Inr (songs @ items_or_empty response), w1)"
  using assms
  by (subst get_liked_songs_loop.simps)
     (auto simp: items_or_empty_def split: option.splits list.splits)

lemma get_liked_songs_loop_continue:
  assumes "make_request srv s (page_call limit offset) w = (Inr response, w1)"
    and "limit \<le> length (items_or_empty response)" and "0 < limit"
  shows "get_liked_songs_loop srv s limit offset songs w =
           get_liked_songs_loop srv s limit (offset + limit) (songs @ items_or_empty response) w1"
  using assms
  by (subst get_liked_songs_loop.simps)
     (auto simp: items_or_empty_def split: option.splits list.splits)

lemma get_liked_songs_loop_pages:
  assumes "0 < limit"
    and "\<And>k. k \<le> n \<Longrightarrow>
           make_request srv s (page_call limit (offset + k * limit)) (ws k) = (Inr (responses k), ws (Suc k))"
    and "\<And>k. k < n \<Longrightarrow> limit \<le> length (items_or_empty (responses k))"
    and "length (items_or_empty (responses n)) < limit"
  shows "get_liked_songs_loop srv s limit offset songs (ws 0) =
           Some (Inr (songs @ concat (map (\<lambda>k. items_or_empty (responses k)) [0..<Suc n])),
                 ws (Suc n))"
  using assms
proof (induction n arbitrary: offset songs ws responses)
  case 0
  from "0.prems"(2) [of 0] have
    "make_request srv s (page_call limit offset) (ws 0) = (Inr (responses 0), ws (Suc 0))"
    by simp
  from get_liked_songs_loop_stop [OF this "0.prems"(4)] show ?case
    by simp
next
  case (Suc n)
  from Suc.prems(2) [of 0] have first:
    "make_request srv s (page_call limit offset) (ws 0) = (Inr (responses 0), ws (Suc 0))"
    by simp
  have full: "limit \<le> length (items_or_empty (responses 0))"
    by (rule Suc.prems(3)) simp
  have "get_liked_songs_loop srv s limit offset songs (ws 0) =
        get_liked_songs_loop srv s limit (offset + limit) (songs @ items_or_empty (responses 0))
          (ws (Suc 0))"
    by (rule get_liked_songs_loop_continue [OF first full Suc.prems(1)])
  also have "\<dots> =
      Some (Inr ((songs @ items_or_empty (responses 0)) @
                 concat (map (\<lambda>k. items_or_empty (responses (Suc k))) [0..<Suc n])),
            ws (Suc (Suc n)))"
  proof (rule Suc.IH [where ws = "\<lambda>k. ws (Suc k)" and responses = "\<lambda>k. responses (Suc k)"])
    show "0 < limit" by (rule Suc.prems(1))
  next
    fix k assume "k \<le> n"
    then have "Suc k \<le> Suc n" by simp
    from Suc.prems(2) [OF this]
    show "make_request srv s (page_call limit (offset + limit + k * limit)) (ws (Suc k)) =
            (Inr (responses (Suc k)), ws (Suc (Suc k)))"
      by (simp add: add.assoc)
  next
    fix k assume "k < n"
    then show "limit \<le> length (items_or_empty (responses (Suc k)))"
      by (intro Suc.prems(3)) simp
  next
    show "length (items_or_empty (responses (Suc n))) < limit"
      by (rule Suc.prems(4))
  qed
  also have "(songs @ items_or_empty (responses 0)) @
        concat (map (\<lambda>k. items_or_empty (responses (Suc k))) [0..<Suc n]) =
      songs @ concat (map (\<lambda>k. items_or_empty (responses k)) [0..<Suc (Suc n)])"
    by (subst (2) map_upt_Suc) simp
  finally show ?case .
qed

text \<open>
  Claim C7, as amended. Pagination asks for the pages at the offsets 0, 50, 100, ... with
  page size 50 and appends their items in order, as long as each page holds at least 50
  items. It ends at the first page with fewer than 50 items, and a request that failed
  counts as a page without items (\<open>items_or_empty None = []\<close>): the songs collected so
  far are returned without any error. \<open>ws k\<close> is the world before the request for page
  \<open>k\<close>, \<open>responses k\<close> what \<open>make_request\<close> returns for it.
\<close>

theorem pagination_ends_at_first_short_or_failed_page:
  assumes "\<And>k. k \<le> n \<Longrightarrow>
             make_request srv s (page_call 50 (k * 50)) (ws k) = (Inr (responses k), ws (Suc k))"
    and "\<And>k. k < n \<Longrightarrow> 50 \<le> length (items_or_empty (responses k))"
    and "length (items_or_empty (responses n)) < 50"
  shows "get_liked_songs srv s 50 (ws 0) =
           Some (Inr (concat (map (\<lambda>k. items_or_empty (responses k)) [0..<Suc n])), ws (Suc n))"
  using get_liked_songs_loop_pages [of 50 n srv s 0 ws responses "[]"] assms
  by (simp add: get_liked_songs_def)

theorem pagination_ends_at_first_short_or_failed_page_witness:
  "map_option (\<lambda>x. (fst x, map snd (exchanges (snd x))))
     (get_liked_songs (failing_from 1 (library_server (map old_item [0..<51]) [] []))
        example_service 50 initial_world) =
   Some (Inr (map old_item [0..<50]),
         [ok_json (page_of (map old_item [0..<50])), status_only 500])"
proof -
  let ?srv = "failing_from 1 (library_server (map old_item [0..<51]) [] [])"
  let ?M0 = "make_request ?srv example_service (page_call 50 (0 * 50)) initial_world"
  let ?M1 = "make_request ?srv example_service (page_call 50 (1 * 50)) (snd ?M0)"
  let ?ws = "\<lambda>k::nat. if k = 0 then initial_world else if k = 1 then snd ?M0 else snd ?M1"
  let ?rs = "\<lambda>k::nat. if k = 0 then Some (page_of (map old_item [0..<50])) else None"
  have m0: "fst ?M0 = Inr (Some (page_of (map old_item [0..<50])))"
    by code_simp
  have m1: "fst ?M1 = Inr None"
    by code_simp
  have steps: "\<And>k. k \<le> 1 \<Longrightarrow>
      make_request ?srv example_service (page_call 50 (k * 50)) (?ws k) = (Inr (?rs k), ?ws (Suc k))"
  proof -
    fix k :: nat assume "k \<le> 1"
    then consider "k = 0" | "k = 1" by linarith
    then show "make_request ?srv example_service (page_call 50 (k * 50)) (?ws k) =
        (Inr (?rs k), ?ws (Suc k))"
    proof cases
      case 1
      with m0 show ?thesis by (simp add: prod_eq_iff)
    next
      case 2
      with m1 show ?thesis by (simp add: prod_eq_iff)
    qed
  qed
  have full: "\<And>k. k < 1 \<Longrightarrow> 50 \<le> length (items_or_empty (?rs k))"
    by (simp add: items_or_empty_def page_of_def truthy_def)
  have short: "length (items_or_empty (?rs 1)) < 50"
    by (simp add: items_or_empty_def)
  from pagination_ends_at_first_short_or_failed_page [of 1 ?srv example_service ?ws ?rs,
      OF steps full short]
  have run: "get_liked_songs ?srv example_service 50 initial_world =
      Some (Inr (concat (map (\<lambda>k. items_or_empty (?rs k)) [0..<Suc 1])), snd ?M1)"
    by simp
  have pages: "concat (map (\<lambda>k. items_or_empty (?rs k)) [0..<Suc 1]) = map old_item [0..<50]"
    by (simp add: items_or_empty_def page_of_def truthy_def)
  have log: "map snd (exchanges (snd ?M1)) =
      [ok_json (page_of (map old_item [0..<50])), status_only 500]"
    by code_simp
  show ?thesis
    unfolding run pages using log by simp
qed

text \<open>
  Claim C7 as stated fails: the library holds 51 songs, the request for the second page is
  answered with status 500, and the fetch returns the first 50 songs with no error; the
  preview goes on and reports a library of 50 songs.
\<close>

theorem failed_page_is_fatal_counterexample:
  "map_option fst
     (get_liked_songs (failing_from 1 (library_server (map old_item [0..<51]) [] []))
        example_service 50 initial_world) = Some (Inr (map old_item [0..<50])) \<and>
   map_option (\<lambda>x. map_sum id pv_total_liked_songs (fst x))
     (preview_cleanup (failing_from 1 (library_server (map old_item [0..<51]) [] []))
        example_fromisoformat example_now example_service 6 initial_world) = Some (Inr 50)"
  by code_simp

section \<open>Claims about the orchestrator\<close>






lemma analyze_items_extends:
  "analyze_items fromisoformat active cutoff items acc = Inr plan \<Longrightarrow>
     \<exists>new. plan = acc @ new \<and> length new \<le> length items"
proof (induction items arbitrary: acc)
  case Nil
  then show ?case by simp
next
  case (Cons item items)
  show ?case
  proof (cases "analyze_item fromisoformat active cutoff item")
    case (Inl e)
    with Cons.prems show ?thesis by simp
  next
    case (Inr v)
    show ?thesis
    proof (cases v)
      case None
      with Cons.prems Inr have "analyze_items fromisoformat active cutoff items acc = Inr plan"
        by simp
      from Cons.IH [OF this] show ?thesis
        by auto
    next
      case (Some r)
      with Cons.prems Inr have
        "analyze_items fromisoformat active cutoff items (acc @ [r]) = Inr plan"
        by simp
      from Cons.IH [OF this] obtain new where
        "plan = (acc @ [r]) @ new" "length new \<le> length items"
        by blast
      then have "plan = acc @ (r # new)" "length (r # new) \<le> length (item # items)"
        by simp_all
      then show ?thesis
        by blast
    qed
  qed
qed

lemma preview_item_Some:
  assumes "preview_item fromisoformat active cutoff item = Inr (Some p)"
  shows "\<exists>t alb. item_track item = Inr t \<and> t_album t = Some alb \<and> pt_id p = t_id t \<and>
           pt_preview_image p = preview_image_of alb"
  using assms
  by (auto simp: preview_item_def preview_record_def album_of_def
      split: sum.splits option.splits if_splits)

lemma preview_items_extends:
  "preview_items fromisoformat active cutoff items acc = Inr plan \<Longrightarrow>
     \<exists>new. plan = acc @ new \<and> length new \<le> length items \<and>
       (\<forall>p \<in> set new. \<exists>item \<in> set items. \<exists>t alb.
           item_track item = Inr t \<and> t_album t = Some alb \<and> pt_id p = t_id t \<and>
           pt_preview_image p = preview_image_of alb)"
proof (induction items arbitrary: acc)
  case Nil
  then show ?case by simp
next
  case (Cons item items)
  show ?case
  proof (cases "preview_item fromisoformat active cutoff item")
    case (Inl e)
    with Cons.prems show ?thesis by simp
  next
    case (Inr v)
    show ?thesis
    proof (cases v)
      case None
      with Cons.prems Inr have "preview_items fromisoformat active cutoff items acc = Inr plan"
        by simp
      from Cons.IH [OF this] obtain new where new:
        "plan = acc @ new" "length new \<le> length items"
        "\<forall>p \<in> set new. \<exists>item \<in> set items. \<exists>t alb.
           item_track item = Inr t \<and> t_album t = Some alb \<and> pt_id p = t_id t \<and>
           pt_preview_image p = preview_image_of alb"
        by blast
      from new(3) have "\<forall>p \<in> set new. \<exists>item' \<in> set (item # items). \<exists>t alb.
           item_track item' = Inr t \<and> t_album t = Some alb \<and> pt_id p = t_id t \<and>
           pt_preview_image p = preview_image_of alb"
        by (meson list.set_intros(2))
      with new(1,2) show ?thesis
        by (intro exI [of _ new]) simp
    next
      case (Some r)
      with Cons.prems Inr have
        "preview_items fromisoformat active cutoff items (acc @ [r]) = Inr plan"
        by simp
      from Cons.IH [OF this] obtain new where new:
        "plan = (acc @ [r]) @ new" "length new \<le> length items"
        "\<forall>p \<in> set new. \<exists>item \<in> set items. \<exists>t alb.
           item_track item = Inr t \<and> t_album t = Some alb \<and> pt_id p = t_id t \<and>
           pt_preview_image p = preview_image_of alb"
        by blast
      from Inr Some have "preview_item fromisoformat active cutoff item = Inr (Some r)"
        by simp
      from preview_item_Some [OF this] have first: "\<exists>item' \<in> set (item # items). \<exists>t alb.
           item_track item' = Inr t \<and> t_album t = Some alb \<and> pt_id r = t_id t \<and>
           pt_preview_image r = preview_image_of alb"
        by (meson list.set_intros(1))
      from new(3) have rest: "\<forall>p \<in> set new. \<exists>item' \<in> set (item # items). \<exists>t alb.
           item_track item' = Inr t \<and> t_album t = Some alb \<and> pt_id p = t_id t \<and>
           pt_preview_image p = preview_image_of alb"
        by (meson list.set_intros(2))
      from first rest have "\<forall>p \<in> set (r # new). \<exists>item' \<in> set (item # items). \<exists>t alb.
           item_track item' = Inr t \<and> t_album t = Some alb \<and> pt_id p = t_id t \<and>
           pt_preview_image p = preview_image_of alb"
        by simp
      moreover have "plan = acc @ (r # new)" "length (r # new) \<le> length (item # items)"
        using new(1,2) by simp_all
      ultimately show ?thesis
        by blast
    qed
  qed
qed

lemma tracks_to_remove_of_length:
  assumes "tracks_to_remove_of fromisoformat now timeframe_months liked_songs recently_played
             short_term_top medium_term_top = Inr plan"
  shows "length plan \<le> length liked_songs"
proof -
  from assms obtain active cutoff where
    "analyze_items fromisoformat active cutoff liked_songs [] = Inr plan"
    by (auto simp: tracks_to_remove_of_def split: sum.splits)
  from analyze_items_extends [OF this] show ?thesis
    by auto
qed

lemma remove_and_report_counts:
  assumes "remove_and_report srv s liked_songs recently_played short_term_top medium_term_top
             plan w = (Inr r, w')"
    and "length plan \<le> length liked_songs"
  shows "songs_removed r + songs_kept r = songs_analyzed r \<and>
         songs_analyzed r = total_liked_songs r \<and>
         0 \<le> songs_removed r \<and> 0 \<le> songs_kept r \<and>
         songs_removed r = int (length (removed_tracks r))"
proof -
  obtain res w1 where rm: "remove_tracks_from_liked srv s (map rt_id plan) w = (res, w1)"
    by (cases "remove_tracks_from_liked srv s (map rt_id plan) w")
  show ?thesis
  proof (cases "plan = []")
    case True
    with assms show ?thesis
      by (auto simp: remove_and_report_def Let_def)
  next
    case False
    with assms rm show ?thesis
      by (cases res) (auto simp: remove_and_report_def Let_def split: if_splits bool.splits)
  qed
qed

lemma preview_report_counts:
  assumes "preview_report fromisoformat now timeframe_months liked_songs recently_played
             short_term_top medium_term_top = Inr p"
  shows "pv_tracks_to_keep p + int (length (pv_tracks_to_remove p)) = pv_total_liked_songs p \<and>
         0 \<le> pv_tracks_to_keep p \<and>
         (\<forall>c \<in> set (pv_tracks_to_remove p). \<exists>item \<in> set liked_songs. \<exists>t alb.
            item_track item = Inr t \<and> t_album t = Some alb \<and> pt_id c = t_id t \<and>
            pt_preview_image c = preview_image_of alb)"
proof -
  from assms obtain active cutoff plan where
    items: "preview_items fromisoformat active cutoff liked_songs [] = Inr plan"
    and p: "p = \<lparr>pv_total_liked_songs = int (length liked_songs),
                 pv_tracks_to_remove = plan,
                 pv_tracks_to_keep = int (length liked_songs) - int (length plan),
                 pv_recent_activity_count = Some (int (card active))\<rparr>"
    by (auto simp: preview_report_def split: sum.splits)
  from preview_items_extends [OF items] show ?thesis
    unfolding p by auto
qed

text \<open>
  Claim C8. Whenever \<open>analyze_and_cleanup\<close> returns a result, the songs removed and the
  songs kept add up to the songs analyzed, which are all the liked songs; neither count is
  negative, and the list of removed tracks has as many entries as the count says. Whenever
  \<open>preview_cleanup\<close> returns a result, the tracks to keep and the length of the removal
  plan add up to the number of liked songs.
\<close>

theorem reported_counts_add_up:
  "(analyze_and_cleanup srv fromisoformat now s timeframe_months w = Some (Inr r, w') \<longrightarrow>
      songs_removed r + songs_kept r = songs_analyzed r \<and>
      songs_analyzed r = total_liked_songs r \<and>
      0 \<le> songs_removed r \<and> 0 \<le> songs_kept r \<and>
      songs_removed r = int (length (removed_tracks r))) \<and>
   (preview_cleanup srv fromisoformat now s timeframe_months w = Some (Inr p, w'') \<longrightarrow>
      pv_tracks_to_keep p + int (length (pv_tracks_to_remove p)) = pv_total_liked_songs p \<and>
      0 \<le> pv_tracks_to_keep p)"
proof (rule conjI; rule impI)
  assume run: "analyze_and_cleanup srv fromisoformat now s timeframe_months w = Some (Inr r, w')"
  have "r = empty_result \<or>
      (\<exists>liked_songs recently_played short_term_top medium_term_top plan w2.
         tracks_to_remove_of fromisoformat now timeframe_months liked_songs recently_played
           short_term_top medium_term_top = Inr plan \<and>
         remove_and_report srv s liked_songs recently_played short_term_top medium_term_top
           plan w2 = (Inr r, w'))"
    using run unfolding analyze_and_cleanup_def
    by (auto split: option.splits sum.splits prod.splits if_splits)
  then show "songs_removed r + songs_kept r = songs_analyzed r \<and>
      songs_analyzed r = total_liked_songs r \<and>
      0 \<le> songs_removed r \<and> 0 \<le> songs_kept r \<and>
      songs_removed r = int (length (removed_tracks r))"
  proof
    assume "r = empty_result"
    then show ?thesis
      by (simp add: empty_result_def)
  next
    assume "\<exists>liked_songs recently_played short_term_top medium_term_top plan w2.
         tracks_to_remove_of fromisoformat now timeframe_months liked_songs recently_played
           short_term_top medium_term_top = Inr plan \<and>
         remove_and_report srv s liked_songs recently_played short_term_top medium_term_top
           plan w2 = (Inr r, w')"
    then obtain liked_songs recently_played short_term_top medium_term_top plan w2 where
      plan: "tracks_to_remove_of fromisoformat now timeframe_months liked_songs recently_played
           short_term_top medium_term_top = Inr plan"
      and rep: "remove_and_report srv s liked_songs recently_played short_term_top medium_term_top
           plan w2 = (Inr r, w')"
      by blast
    from remove_and_report_counts [OF rep tracks_to_remove_of_length [OF plan]]
    show ?thesis .
  qed
next
  assume run: "preview_cleanup srv fromisoformat now s timeframe_months w = Some (Inr p, w'')"
  have "p = empty_preview \<or>
      (\<exists>liked_songs recently_played short_term_top medium_term_top.
         preview_report fromisoformat now timeframe_months liked_songs recently_played
           short_term_top medium_term_top = Inr p)"
    using run unfolding preview_cleanup_def
    by (auto split: option.splits sum.splits prod.splits if_splits)
  then show "pv_tracks_to_keep p + int (length (pv_tracks_to_remove p)) = pv_total_liked_songs p \<and>
      0 \<le> pv_tracks_to_keep p"
  proof
    assume "p = empty_preview"
    then show ?thesis
      by (simp add: empty_preview_def)
  next
    assume "\<exists>liked_songs recently_played short_term_top medium_term_top.
         preview_report fromisoformat now timeframe_months liked_songs recently_played
           short_term_top medium_term_top = Inr p"
    then obtain liked_songs recently_played short_term_top medium_term_top where
      "preview_report fromisoformat now timeframe_months liked_songs recently_played
           short_term_top medium_term_top = Inr p"
      by blast
    from preview_report_counts [OF this] show ?thesis
      by blast
  qed
qed

theorem reported_counts_add_up_witness:
  "\<exists>r w' p w''.
     analyze_and_cleanup
       (library_server [old_item 1, old_item 2, new_item 3] [PlayHistory (example_track 1)] [])
       example_fromisoformat example_now example_service 6 initial_world = Some (Inr r, w') \<and>
     songs_removed r = 1 \<and> songs_kept r = 2 \<and> songs_analyzed r = 3 \<and>
     preview_cleanup
       (library_server [old_item 1, old_item 2, new_item 3] [PlayHistory (example_track 1)] [])
       example_fromisoformat example_now example_service 6 initial_world = Some (Inr p, w'') \<and>
     length (pv_tracks_to_remove p) = 1 \<and> pv_tracks_to_keep p = 2 \<and> pv_total_liked_songs p = 3"
proof -
  let ?srv = "library_server [old_item 1, old_item 2, new_item 3] [PlayHistory (example_track 1)] []"
  let ?A = "analyze_and_cleanup ?srv example_fromisoformat example_now example_service 6 initial_world"
  let ?P = "preview_cleanup ?srv example_fromisoformat example_now example_service 6 initial_world"
  let ?r = "projr (fst (the ?A))"
  let ?p = "projr (fst (the ?P))"
  have a: "?A = Some (Inr ?r, snd (the ?A))"
    by code_simp
  have p: "?P = Some (Inr ?p, snd (the ?P))"
    by code_simp
  have removed: "songs_removed ?r = 1" and analyzed: "songs_analyzed ?r = 3"
    by code_simp+
  have plan: "length (pv_tracks_to_remove ?p) = 1" and total: "pv_total_liked_songs ?p = 3"
    by code_simp+
  from reported_counts_add_up [of ?srv example_fromisoformat example_now example_service 6
      initial_world ?r "snd (the ?A)" ?p "snd (the ?P)"] a p
  have "songs_removed ?r + songs_kept ?r = songs_analyzed ?r"
    and "pv_tracks_to_keep ?p + int (length (pv_tracks_to_remove ?p)) = pv_total_liked_songs ?p"
    by blast+
  with removed analyzed plan total have kept: "songs_kept ?r = 2" and keep: "pv_tracks_to_keep ?p = 2"
    by simp_all
  show ?thesis
    by (rule exI [of _ ?r], rule exI [of _ "snd (the ?A)"], rule exI [of _ ?p],
        rule exI [of _ "snd (the ?P)"])
       (intro conjI a p removed kept analyzed plan keep total)
qed



end
